theory Spec2Isabelle
  imports Complex_Main "HOL-Library.Char_ord" "HOL-Library.List_Lexorder"
begin

section \<open>Python values and dictionaries\<close>

text \<open>
  The values the callback plugin \<^verbatim>\<open>callback_plugins/elk_logger.py\<close> handles are the
  JSON-representable Python values: \<^verbatim>\<open>None\<close>, booleans, integers, floats, strings, lists,
  and dictionaries with string keys. A \<^verbatim>\<open>str\<close> is a list of characters and \<^verbatim>\<open>len\<close> counts
  them. A dictionary keeps its keys in insertion order, so it is an association list; a
  well-formed dictionary has no key twice. A float is represented by the real number it
  stands for.
\<close>

datatype pyval =
    PNone
  | PBool bool
  | PInt int
  | PFloat real
  | PStr string
  | PList "pyval list"
  | PDict "(string \<times> pyval) list"

type_synonym pydict = "(string \<times> pyval) list"

text \<open>\<^verbatim>\<open>key in d\<close>\<close>

definition dict_contains :: "pydict \<Rightarrow> string \<Rightarrow> bool" where
  "dict_contains d k = (map_of d k \<noteq> None)"

text \<open>\<^verbatim>\<open>d.get(key, default)\<close>\<close>

definition dict_get :: "pydict \<Rightarrow> string \<Rightarrow> pyval \<Rightarrow> pyval" where
  "dict_get d k dflt = (case map_of d k of None \<Rightarrow> dflt | Some v \<Rightarrow> v)"

text \<open>
  \<^verbatim>\<open>d[key] = value\<close>: an existing key keeps its position and gets the new value, a new key
  goes to the end.
\<close>

fun dict_set :: "pydict \<Rightarrow> string \<Rightarrow> pyval \<Rightarrow> pydict" where
  "dict_set [] k v = [(k, v)]"
| "dict_set ((k', v') # d) k v =
     (if k' = k then (k', v) # d else (k', v') # dict_set d k v)"

text \<open>\<^verbatim>\<open>d.keys()\<close>, in iteration order.\<close>

definition dict_keys :: "pydict \<Rightarrow> string list" where
  "dict_keys d = map fst d"

section \<open>The result sanitizer: \<^verbatim>\<open>_clean_result\<close>\<close>

definition safe_keys :: "string list" where
  "safe_keys = [''stdout'', ''stderr'', ''msg'', ''changed'', ''rc'', ''stdout_lines'']"

definition truncated_marker :: string where
  "truncated_marker = ''... (truncated)''"

text \<open>
  The body of the \<^verbatim>\<open>if\<close>/\<^verbatim>\<open>elif\<close>/\<^verbatim>\<open>else\<close> of the loop: the value stored under the
  key. \<^verbatim>\<open>value[:5000]\<close> is \<open>take 5000\<close>.
\<close>

fun limit_value :: "pyval \<Rightarrow> pyval" where
  "limit_value (PStr s) =
     (if length s > 5000 then PStr (take 5000 s @ truncated_marker) else PStr s)"
| "limit_value (PList xs) =
     (if length xs > 50 then PList (take 50 xs @ [PStr truncated_marker]) else PList xs)"
| "limit_value v = v"

text \<open>One round of \<^verbatim>\<open>for key in safe_keys\<close>, on the dictionary \<^verbatim>\<open>clean\<close> built so far.\<close>

definition clean_step :: "pydict \<Rightarrow> string \<Rightarrow> pydict \<Rightarrow> pydict" where
  "clean_step result k clean =
     (if dict_contains result k
      then dict_set clean k (limit_value (the (map_of result k)))
      else clean)"

definition clean_result :: "pydict \<Rightarrow> pydict" where
  "clean_result result = fold (clean_step result) safe_keys []"

text \<open>
  A lower bound on the size of a value as a JSON text: the characters of its strings and
  keys, and one for every other scalar.
\<close>

fun pysize :: "pyval \<Rightarrow> nat" where
  "pysize (PStr s) = length s"
| "pysize (PList xs) = sum_list (map pysize xs)"
| "pysize (PDict kvs) = sum_list (map (\<lambda>kv. length (fst kv) + pysize (snd kv)) kvs)"
| "pysize v = 1"

text \<open>
  The closed form of the loop, used in the proofs: the allow-listed keys that the raw
  result holds, in the order of the list, each with its limited value.
\<close>

definition kept :: "pydict \<Rightarrow> string list \<Rightarrow> pydict" where
  "kept r ks = List.map_filter (\<lambda>k. map_option (\<lambda>v. (k, limit_value v)) (map_of r k)) ks"

section \<open>Numbers and clock readings as text\<close>

text \<open>Decimal digits of a natural number, as \<^verbatim>\<open>str\<close> and the f-strings print them.\<close>

fun str_nat :: "nat \<Rightarrow> string" where
  "str_nat n =
     (if n < 10 then [''0123456789'' ! n]
      else str_nat (n div 10) @ [''0123456789'' ! (n mod 10)])"

declare str_nat.simps [simp del]

definition str_int :: "int \<Rightarrow> string" where
  "str_int i = (if i < 0 then CHR ''-'' # str_nat (nat (- i)) else str_nat (nat i))"

text \<open>\<^verbatim>\<open>%0wd\<close>: zero padding on the left up to width \<open>w\<close>.\<close>

definition zero_pad :: "nat \<Rightarrow> nat \<Rightarrow> string" where
  "zero_pad w n = replicate (w - length (str_nat n)) CHR ''0'' @ str_nat n"

text \<open>
  A \<^verbatim>\<open>datetime\<close> as \<^verbatim>\<open>datetime.utcnow()\<close> returns it: a naive calendar date and time of
  day. The readings of the clock are inputs of the handlers.
\<close>

record datetime =
  year :: nat
  month :: nat
  day :: nat
  hour :: nat
  minute :: nat
  second :: nat
  microsecond :: nat

text \<open>\<^verbatim>\<open>isoformat()\<close>: the fraction is printed only when the microseconds are not zero.\<close>

definition isoformat :: "datetime \<Rightarrow> string" where
  "isoformat t =
     zero_pad 4 (year t) @ ''-'' @ zero_pad 2 (month t) @ ''-'' @ zero_pad 2 (day t) @ ''T'' @
     zero_pad 2 (hour t) @ '':'' @ zero_pad 2 (minute t) @ '':'' @ zero_pad 2 (second t) @
     (if microsecond t = 0 then [] else ''.'' @ zero_pad 6 (microsecond t))"

text \<open>\<^verbatim>\<open>strftime('%Y%m%d%H%M%S')\<close>, for the four-digit years a clock returns.\<close>

definition strftime_compact :: "datetime \<Rightarrow> string" where
  "strftime_compact t =
     zero_pad 4 (year t) @ zero_pad 2 (month t) @ zero_pad 2 (day t) @
     zero_pad 2 (hour t) @ zero_pad 2 (minute t) @ zero_pad 2 (second t)"

text \<open>
  The difference of two readings is a \<^verbatim>\<open>timedelta\<close>, here its length in microseconds:
  each reading is counted in microseconds from the start of year 1 of the proleptic
  Gregorian calendar.
\<close>

definition is_leap :: "nat \<Rightarrow> bool" where
  "is_leap y = (y mod 4 = 0 \<and> (y mod 100 \<noteq> 0 \<or> y mod 400 = 0))"

definition days_in_month :: "nat \<Rightarrow> nat \<Rightarrow> nat" where
  "days_in_month y m =
     (if m = 2 then (if is_leap y then 29 else 28)
      else if m = 4 \<or> m = 6 \<or> m = 9 \<or> m = 11 then 30 else 31)"

definition days_before_year :: "nat \<Rightarrow> nat" where
  "days_before_year y =
     (let p = y - 1 in p * 365 + p div 4 - p div 100 + p div 400)"

definition days_before_month :: "nat \<Rightarrow> nat \<Rightarrow> nat" where
  "days_before_month y m = sum_list (map (days_in_month y) [1 ..< m])"

definition toordinal :: "datetime \<Rightarrow> nat" where
  "toordinal t = days_before_year (year t) + days_before_month (year t) (month t) + day t"

definition microseconds_of :: "datetime \<Rightarrow> int" where
  "microseconds_of t =
     int ((((toordinal t * 24 + hour t) * 60 + minute t) * 60 + second t) * 1000000
          + microsecond t)"

definition datetime_sub :: "datetime \<Rightarrow> datetime \<Rightarrow> int" where
  "datetime_sub a b = microseconds_of a - microseconds_of b"

text \<open>
  \<^verbatim>\<open>total_seconds()\<close>: the quotient by \<open>10\<^sup>6\<close>; Python rounds it to the nearest float, the
  model keeps the exact quotient.
\<close>

definition total_seconds :: "int \<Rightarrow> real" where
  "total_seconds td = real_of_int td / 1000000"

section \<open>The callback object and its surroundings\<close>

text \<open>
  Exceptions that leave a method: an attribute read before any assignment, an operation
  on \<^verbatim>\<open>None\<close>, and an exception raised below \<^verbatim>\<open>requests.post\<close> that is not a
  \<^verbatim>\<open>RequestException\<close>.
\<close>

datatype error = AttributeError string | TypeError string | Uncaught string

definition bind_err :: "error + 'a \<Rightarrow> ('a \<Rightarrow> error + 'b) \<Rightarrow> error + 'b" where
  "bind_err m f = (case m of Inl e \<Rightarrow> Inl e | Inr x \<Rightarrow> f x)"

text \<open>Reading \<^verbatim>\<open>self.name\<close>: an attribute that was never assigned raises.\<close>

definition getattr :: "string \<Rightarrow> 'a option \<Rightarrow> error + 'a" where
  "getattr name slot = (case slot of None \<Rightarrow> Inl (AttributeError name) | Some v \<Rightarrow> Inr v)"

text \<open>What \<^verbatim>\<open>self._display\<close> has printed, by level.\<close>

datatype shown =
    Display string
  | Warning string
  | Error string
  | DisplayCompleted real
    \<comment> \<open>\<^verbatim>\<open>"[Elasticsearch] Playbook completed in {:.2f}s"\<close>; the number is kept as it is,
        its two-digit rendering is not modelled\<close>

text \<open>
  One call of \<^verbatim>\<open>requests.post\<close>: the URL and the document whose \<^verbatim>\<open>json.dumps\<close> text is the
  body. \<^verbatim>\<open>json.dumps\<close> accepts every value of type \<open>pyval\<close> under string keys, so building
  the body raises nothing (the interpreter's resource limits aside). The header
  \<^verbatim>\<open>Content-Type: application/json\<close> and the timeout of 5 seconds are the same in every
  call.
\<close>

record http_post =
  url :: string
  body_of :: pydict

text \<open>
  How the backend answers one call: a response with a status code, a
  \<^verbatim>\<open>requests.exceptions.RequestException\<close> (the class of every transport fault: timeout,
  refused connection, failed name resolution) with its \<^verbatim>\<open>str\<close>, or an exception of
  another class.
\<close>

datatype post_outcome = Response int | RequestException string | OtherException string

text \<open>
  The attributes of the \<^verbatim>\<open>CallbackModule\<close> object, followed by the display output and the
  calls of \<^verbatim>\<open>requests.post\<close> made so far. An attribute is \<open>None\<close> until its first
  assignment; \<open>Some PNone\<close> and \<open>Some None\<close> are the Python value \<^verbatim>\<open>None\<close>.
  \<^verbatim>\<open>disabled\<close> is assigned \<^verbatim>\<open>False\<close> by the constructor of the base class.
\<close>

record callback_module =
  disabled :: bool
  playbook_name :: "pyval option"
  playbook_id :: "pyval option"
  start_time :: "datetime option option"
  hostname :: "string option"
  es_host :: "string option"
  es_index :: "string option"
  log_task_results :: "bool option"
  displayed :: "shown list"
  posted :: "http_post list"

text \<open>
  \<^verbatim>\<open>__init__\<close>, given the module flag \<^verbatim>\<open>HAS_REQUESTS\<close> and the value of
  \<^verbatim>\<open>socket.gethostname()\<close>. Without the library the method returns before it assigns the
  run's attributes.
\<close>

definition callback_init :: "bool \<Rightarrow> string \<Rightarrow> callback_module" where
  "callback_init has_requests gethostname =
     (if \<not> has_requests then
        \<lparr>disabled = True, playbook_name = None, playbook_id = None, start_time = None,
         hostname = None, es_host = None, es_index = None, log_task_results = None,
         displayed = [Warning ''requests library is required for elasticsearch callback''],
         posted = []\<rparr>
      else
        \<lparr>disabled = False, playbook_name = Some PNone, playbook_id = Some PNone,
         start_time = Some None, hostname = Some gethostname, es_host = None,
         es_index = None, log_task_results = None, displayed = [], posted = []\<rparr>)"

text \<open>\<^verbatim>\<open>set_options\<close>, given the three values \<^verbatim>\<open>get_option\<close> returns.\<close>

definition set_options :: "string \<Rightarrow> string \<Rightarrow> bool \<Rightarrow> callback_module \<Rightarrow> callback_module" where
  "set_options host index log_results cb =
     cb\<lparr>es_host := Some host, es_index := Some index, log_task_results := Some log_results\<rparr>"

definition display_add :: "shown \<Rightarrow> callback_module \<Rightarrow> callback_module" where
  "display_add m cb = cb\<lparr>displayed := displayed cb @ [m]\<rparr>"

section \<open>The sink client: \<^verbatim>\<open>_send_to_elasticsearch\<close>\<close>

text \<open>
  The method returns nothing; what a caller or an operator can observe of one call is the
  new state: the calls of \<^verbatim>\<open>requests.post\<close> and the warnings. \<open>Inl\<close> is an exception that
  leaves the method.
\<close>

definition send_to_elasticsearch ::
  "callback_module \<Rightarrow> pydict \<Rightarrow> post_outcome \<Rightarrow> error + callback_module" where
  "send_to_elasticsearch cb log_entry outcome =
     (if disabled cb then Inr cb
      else
        bind_err (getattr ''es_host'' (es_host cb)) (\<lambda>host.
        bind_err (getattr ''es_index'' (es_index cb)) (\<lambda>index.
          let cb' = cb\<lparr>posted := posted cb @
                      [\<lparr>url = host @ ''/'' @ index @ ''/_doc'', body_of = log_entry\<rparr>]\<rparr>
          in case outcome of
               Response status_code \<Rightarrow>
                 if status_code \<notin> {200, 201}
                 then Inr (display_add
                        (Warning (''[Elasticsearch] Failed to send log: HTTP '' @ str_int status_code))
                        cb')
                 else Inr cb'
             | RequestException e \<Rightarrow>
                 Inr (display_add (Warning (''[Elasticsearch] Error: '' @ e)) cb')
             | OtherException e \<Rightarrow> Inl (Uncaught e))))"

section \<open>The event handlers\<close>

text \<open>
  Every handler builds its dictionary \<^verbatim>\<open>log_entry\<close> and passes it to
  \<^verbatim>\<open>_send_to_elasticsearch\<close>. The building is a function of its own here (\<open>\<dots>_entry\<close>);
  the handler takes, besides the arguments of the method, the reading \<open>now\<close> of
  \<^verbatim>\<open>datetime.utcnow()\<close> and the backend's answer to the one call it makes. Names of plays,
  tasks and hosts are the strings their \<^verbatim>\<open>get_name()\<close> returns.
\<close>

text \<open>
  The three attributes every entry reads, in the order of the dictionary displays:
  \<^verbatim>\<open>playbook_id\<close>, \<^verbatim>\<open>playbook_name\<close>, \<^verbatim>\<open>hostname\<close>.
\<close>

definition run_attrs :: "callback_module \<Rightarrow> error + (pyval \<times> pyval \<times> string)" where
  "run_attrs cb =
     bind_err (getattr ''playbook_id'' (playbook_id cb)) (\<lambda>pid.
     bind_err (getattr ''playbook_name'' (playbook_name cb)) (\<lambda>pname.
     bind_err (getattr ''hostname'' (hostname cb)) (\<lambda>hn.
       Inr (pid, pname, hn))))"

definition timestamp :: "datetime \<Rightarrow> pyval" where
  "timestamp t = PStr (isoformat t @ ''Z'')"

subsection \<open>\<^verbatim>\<open>v2_playbook_on_start\<close>\<close>

definition v2_playbook_on_start ::
  "callback_module \<Rightarrow> datetime \<Rightarrow> string \<Rightarrow> post_outcome \<Rightarrow> error + callback_module" where
  "v2_playbook_on_start cb now file_name outcome =
     (let cb1 = cb\<lparr>playbook_name := Some (PStr file_name), start_time := Some (Some now)\<rparr>
      in bind_err (getattr ''hostname'' (hostname cb1)) (\<lambda>hn.
           let pid = PStr (hn @ ''-'' @ strftime_compact now);
               cb2 = cb1\<lparr>playbook_id := Some pid\<rparr>;
               log_entry =
                 [(''@timestamp'', timestamp now),
                  (''event_type'', PStr ''playbook_start''),
                  (''playbook_id'', pid),
                  (''playbook'', PStr file_name),
                  (''hostname'', PStr hn),
                  (''status'', PStr ''started'')]
           in bind_err (send_to_elasticsearch cb2 log_entry outcome) (\<lambda>cb3.
                Inr (display_add (Display (''[Elasticsearch] Playbook started: '' @ file_name))
                       cb3))))"

subsection \<open>\<^verbatim>\<open>v2_playbook_on_play_start\<close> and \<^verbatim>\<open>v2_playbook_on_task_start\<close>\<close>



definition task_start_entry :: "callback_module \<Rightarrow> datetime \<Rightarrow> string \<Rightarrow> error + pydict" where
  "task_start_entry cb now task_name =
     bind_err (run_attrs cb) (\<lambda>(pid, pname, hn).
       Inr [(''@timestamp'', timestamp now),
            (''event_type'', PStr ''task_start''),
            (''playbook_id'', pid),
            (''playbook'', pname),
            (''task'', PStr task_name),
            (''hostname'', PStr hn)])"

definition v2_playbook_on_task_start ::
  "callback_module \<Rightarrow> datetime \<Rightarrow> string \<Rightarrow> post_outcome \<Rightarrow> error + callback_module" where
  "v2_playbook_on_task_start cb now task_name outcome =
     bind_err (task_start_entry cb now task_name) (\<lambda>log_entry.
       send_to_elasticsearch cb log_entry outcome)"

subsection \<open>The task outcomes\<close>

text \<open>
  A task result is the host's name, the task's name and the dictionary \<^verbatim>\<open>_result\<close>.
  \<^verbatim>\<open>log_entry['result'] = \<dots>\<close> is read after the dictionary display is complete.
\<close>

definition with_result :: "callback_module \<Rightarrow> pydict \<Rightarrow> pydict \<Rightarrow> error + pydict" where
  "with_result cb raw log_entry =
     bind_err (getattr ''log_task_results'' (log_task_results cb)) (\<lambda>log_results.
       Inr (if log_results then dict_set log_entry ''result'' (PDict (clean_result raw))
            else log_entry))"

definition runner_on_ok_entry ::
  "callback_module \<Rightarrow> datetime \<Rightarrow> string \<Rightarrow> string \<Rightarrow> pydict \<Rightarrow> error + pydict" where
  "runner_on_ok_entry cb now host task raw =
     bind_err (run_attrs cb) (\<lambda>(pid, pname, hn).
       with_result cb raw
         [(''@timestamp'', timestamp now),
          (''event_type'', PStr ''task_ok''),
          (''playbook_id'', pid),
          (''playbook'', pname),
          (''host'', PStr host),
          (''task'', PStr task),
          (''status'', PStr ''success''),
          (''changed'', dict_get raw ''changed'' (PBool False)),
          (''hostname'', PStr hn)])"

definition v2_runner_on_ok ::
  "callback_module \<Rightarrow> datetime \<Rightarrow> string \<Rightarrow> string \<Rightarrow> pydict \<Rightarrow> post_outcome
     \<Rightarrow> error + callback_module" where
  "v2_runner_on_ok cb now host task raw outcome =
     bind_err (runner_on_ok_entry cb now host task raw) (\<lambda>log_entry.
       send_to_elasticsearch cb log_entry outcome)"

definition runner_on_failed_entry ::
  "callback_module \<Rightarrow> datetime \<Rightarrow> string \<Rightarrow> string \<Rightarrow> pydict \<Rightarrow> bool \<Rightarrow> error + pydict" where
  "runner_on_failed_entry cb now host task raw ignore_errors =
     bind_err (run_attrs cb) (\<lambda>(pid, pname, hn).
       with_result cb raw
         [(''@timestamp'', timestamp now),
          (''event_type'', PStr ''task_failed''),
          (''playbook_id'', pid),
          (''playbook'', pname),
          (''host'', PStr host),
          (''task'', PStr task),
          (''status'', PStr ''failed''),
          (''ignore_errors'', PBool ignore_errors),
          (''hostname'', PStr hn),
          (''error_message'', dict_get raw ''msg'' (PStr ''Unknown error''))])"

definition v2_runner_on_failed ::
  "callback_module \<Rightarrow> datetime \<Rightarrow> string \<Rightarrow> string \<Rightarrow> pydict \<Rightarrow> bool \<Rightarrow> post_outcome
     \<Rightarrow> error + callback_module" where
  "v2_runner_on_failed cb now host task raw ignore_errors outcome =
     bind_err (runner_on_failed_entry cb now host task raw ignore_errors) (\<lambda>log_entry.
     bind_err (send_to_elasticsearch cb log_entry outcome) (\<lambda>cb'.
       Inr (display_add (Warning (''[Elasticsearch] Task failed: '' @ task)) cb')))"

definition runner_on_skipped_entry ::
  "callback_module \<Rightarrow> datetime \<Rightarrow> string \<Rightarrow> string \<Rightarrow> error + pydict" where
  "runner_on_skipped_entry cb now host task =
     bind_err (run_attrs cb) (\<lambda>(pid, pname, hn).
       Inr [(''@timestamp'', timestamp now),
            (''event_type'', PStr ''task_skipped''),
            (''playbook_id'', pid),
            (''playbook'', pname),
            (''host'', PStr host),
            (''task'', PStr task),
            (''status'', PStr ''skipped''),
            (''hostname'', PStr hn)])"

definition v2_runner_on_skipped ::
  "callback_module \<Rightarrow> datetime \<Rightarrow> string \<Rightarrow> string \<Rightarrow> post_outcome \<Rightarrow> error + callback_module" where
  "v2_runner_on_skipped cb now host task outcome =
     bind_err (runner_on_skipped_entry cb now host task) (\<lambda>log_entry.
       send_to_elasticsearch cb log_entry outcome)"

definition runner_on_unreachable_entry ::
  "callback_module \<Rightarrow> datetime \<Rightarrow> string \<Rightarrow> string \<Rightarrow> pydict \<Rightarrow> error + pydict" where
  "runner_on_unreachable_entry cb now host task raw =
     bind_err (run_attrs cb) (\<lambda>(pid, pname, hn).
       Inr [(''@timestamp'', timestamp now),
            (''event_type'', PStr ''host_unreachable''),
            (''playbook_id'', pid),
            (''playbook'', pname),
            (''host'', PStr host),
            (''task'', PStr task),
            (''status'', PStr ''unreachable''),
            (''hostname'', PStr hn),
            (''error_message'', dict_get raw ''msg'' (PStr ''Host unreachable''))])"

definition v2_runner_on_unreachable ::
  "callback_module \<Rightarrow> datetime \<Rightarrow> string \<Rightarrow> string \<Rightarrow> pydict \<Rightarrow> post_outcome
     \<Rightarrow> error + callback_module" where
  "v2_runner_on_unreachable cb now host task raw outcome =
     bind_err (runner_on_unreachable_entry cb now host task raw) (\<lambda>log_entry.
     bind_err (send_to_elasticsearch cb log_entry outcome) (\<lambda>cb'.
       Inr (display_add (Error (''[Elasticsearch] Host unreachable: '' @ host)) cb')))"

subsection \<open>\<^verbatim>\<open>v2_playbook_on_stats\<close>\<close>

text \<open>
  The statistics object of the engine: the dictionary \<^verbatim>\<open>processed\<close>, whose keys are the
  hosts, and the method \<^verbatim>\<open>summarize\<close>, which returns the seven counts of a host.
\<close>

record host_summary =
  ok :: int
  changed :: int
  unreachable :: int
  failures :: int
  skipped :: int
  rescued :: int
  ignored :: int

record aggregate_stats =
  processed :: pydict
  summarize :: "string \<Rightarrow> host_summary"

text \<open>The dictionary stored under a host in \<^verbatim>\<open>summary\<close>.\<close>

definition summary_item :: "host_summary \<Rightarrow> pyval" where
  "summary_item s =
     PDict [(''ok'', PInt (ok s)),
            (''changed'', PInt (changed s)),
            (''unreachable'', PInt (unreachable s)),
            (''failures'', PInt (failures s)),
            (''skipped'', PInt (skipped s)),
            (''rescued'', PInt (rescued s)),
            (''ignored'', PInt (ignored s))]"

text \<open>
  \<^verbatim>\<open>hosts = sorted(stats.processed.keys())\<close> and the loop \<^verbatim>\<open>for h in hosts\<close> that fills
  \<^verbatim>\<open>summary\<close>. Strings compare as Python compares them: character by character, by code.
\<close>

definition sorted_hosts :: "aggregate_stats \<Rightarrow> string list" where
  "sorted_hosts stats = sort (dict_keys (processed stats))"

definition summary_of :: "aggregate_stats \<Rightarrow> pydict" where
  "summary_of stats =
     fold (\<lambda>h summary. dict_set summary h (summary_item (summarize stats h)))
       (sorted_hosts stats) []"

text \<open>
  \<^verbatim>\<open>runtime = end_time - self.start_time\<close> comes first: it raises when \<^verbatim>\<open>start_time\<close> is
  still \<^verbatim>\<open>None\<close>. The entry is returned with \<^verbatim>\<open>runtime\<close>, which the handler prints.
\<close>

definition playbook_stats_entry ::
  "callback_module \<Rightarrow> datetime \<Rightarrow> aggregate_stats \<Rightarrow> error + (int \<times> pydict)" where
  "playbook_stats_entry cb end_time stats =
     bind_err (getattr ''start_time'' (start_time cb)) (\<lambda>st.
       case st of
         None \<Rightarrow>
           Inl (TypeError
             ''unsupported operand type(s) for -: datetime.datetime and NoneType'')
       | Some started \<Rightarrow>
           let runtime = datetime_sub end_time started;
               summary = summary_of stats
           in bind_err (run_attrs cb) (\<lambda>(pid, pname, hn).
                Inr (runtime,
                  [(''@timestamp'', timestamp end_time),
                   (''event_type'', PStr ''playbook_stats''),
                   (''playbook_id'', pid),
                   (''playbook'', pname),
                   (''status'', PStr ''completed''),
                   (''start_time'', timestamp started),
                   (''end_time'', timestamp end_time),
                   (''duration_seconds'', PFloat (total_seconds runtime)),
                   (''hostname'', PStr hn),
                   (''summary'', PDict summary)])))"

definition v2_playbook_on_stats ::
  "callback_module \<Rightarrow> datetime \<Rightarrow> aggregate_stats \<Rightarrow> post_outcome \<Rightarrow> error + callback_module" where
  "v2_playbook_on_stats cb now stats outcome =
     bind_err (playbook_stats_entry cb now stats) (\<lambda>(runtime, log_entry).
     bind_err (send_to_elasticsearch cb log_entry outcome) (\<lambda>cb'.
       Inr (display_add (DisplayCompleted (total_seconds runtime)) cb')))"

section \<open>Properties of the result sanitizer\<close>

lemma dict_set_fresh: "k \<notin> set (map fst d) \<Longrightarrow> dict_set d k v = d @ [(k, v)]"
  by (induction d) auto

lemma kept_Nil: "kept r [] = []"
  by (simp add: kept_def List.map_filter_simps)

lemma kept_Cons:
  "kept r (k # ks) =
     (case map_of r k of None \<Rightarrow> kept r ks | Some v \<Rightarrow> (k, limit_value v) # kept r ks)"
  by (simp add: kept_def List.map_filter_simps split: option.splits)

lemma fold_clean_step:
  "distinct ks \<Longrightarrow> set ks \<inter> set (map fst acc) = {} \<Longrightarrow>
   fold (clean_step r) ks acc = acc @ kept r ks"
proof (induction ks arbitrary: acc)
  case Nil
  then show ?case by (simp add: kept_Nil)
next
  case (Cons k ks)
  show ?case
  proof (cases "map_of r k")
    case None
    with Cons show ?thesis
      by (simp add: clean_step_def dict_contains_def kept_Cons)
  next
    case (Some v)
    have fresh: "k \<notin> set (map fst acc)" using Cons.prems by auto
    have "set ks \<inter> set (map fst (acc @ [(k, limit_value v)])) = {}"
      using Cons.prems by auto
    with Cons Some fresh show ?thesis
      by (simp add: clean_step_def dict_contains_def kept_Cons dict_set_fresh)
  qed
qed

lemma distinct_safe_keys: "distinct safe_keys"
  by (simp add: safe_keys_def)

lemma clean_result_kept: "clean_result r = kept r safe_keys"
  using fold_clean_step [OF distinct_safe_keys, of "[]" r]
  by (simp add: clean_result_def)

lemma map_of_kept:
  "map_of (kept r ks) k = (if k \<in> set ks then map_option limit_value (map_of r k) else None)"
  by (induction ks) (auto simp: kept_Cons kept_Nil split: option.splits)

lemma keys_kept: "map fst (kept r ks) = filter (dict_contains r) ks"
  by (induction ks) (auto simp: kept_Cons kept_Nil dict_contains_def split: option.splits)

lemma map_of_clean_result:
  "map_of (clean_result r) k =
     (if k \<in> set safe_keys then map_option limit_value (map_of r k) else None)"
  by (simp add: clean_result_kept map_of_kept)

lemma limit_value_idem: "limit_value (limit_value v) = limit_value v"
  by (cases v) (auto simp: truncated_marker_def)

lemma kept_idem: "set ks \<subseteq> set ks' \<Longrightarrow> kept (kept r ks') ks = kept r ks"
  by (induction ks)
     (auto simp: kept_Cons kept_Nil map_of_kept limit_value_idem split: option.splits)

lemma limit_value_str_bound: "limit_value v = PStr s \<Longrightarrow> length s \<le> 5015"
  by (cases v) (auto simp: truncated_marker_def split: if_splits)

lemma limit_value_list_bound: "limit_value v = PList xs \<Longrightarrow> length xs \<le> 51"
  by (cases v) (auto split: if_splits)

lemma length_kept: "length (kept r ks) \<le> length ks"
  by (induction ks) (auto simp: kept_Cons kept_Nil split: option.splits)

lemma clean_result_long_line:
  "clean_result [(''stdout_lines'', PList [PStr s])] = [(''stdout_lines'', PList [PStr s])]"
  by (simp add: clean_result_def safe_keys_def clean_step_def dict_contains_def)

text \<open>
  Claim C1. For every raw result and every allow-listed key that it holds: a string of
  more than 5000 characters is stored as its first 5000 characters followed by the marker
  \<^verbatim>\<open>... (truncated)\<close>; a list of more than 50 elements is stored as its first 50 elements
  followed by one marker element, 51 elements in all; every other value is stored as it is.
\<close>

theorem clean_result_limits_present_keys:
  assumes "k \<in> set safe_keys" and "map_of result k = Some v"
  shows "(\<forall>s. v = PStr s \<and> length s > 5000 \<longrightarrow>
            map_of (clean_result result) k = Some (PStr (take 5000 s @ ''... (truncated)''))
          \<and> length (take 5000 s @ ''... (truncated)'') = 5000 + length ''... (truncated)'')
       \<and> (\<forall>xs. v = PList xs \<and> length xs > 50 \<longrightarrow>
            map_of (clean_result result) k = Some (PList (take 50 xs @ [PStr ''... (truncated)'']))
          \<and> length (take 50 xs @ [PStr ''... (truncated)'']) = 51)
       \<and> ((\<forall>s. v = PStr s \<longrightarrow> length s \<le> 5000) \<and> (\<forall>xs. v = PList xs \<longrightarrow> length xs \<le> 50) \<longrightarrow>
            map_of (clean_result result) k = Some v)"
proof -
  have look: "map_of (clean_result result) k = Some (limit_value v)"
    using assms by (simp add: map_of_clean_result)
  show ?thesis
    by (cases v) (auto simp: look truncated_marker_def)
qed

theorem clean_result_limits_present_keys_witness:
  "map_of (clean_result
      [(''stdout'', PStr (replicate 5001 CHR ''x'')),
       (''stdout_lines'', PList (replicate 51 (PStr ''line''))),
       (''rc'', PInt 0)]) ''stdout''
     = Some (PStr (replicate 5000 CHR ''x'' @ ''... (truncated)''))
   \<and> map_of (clean_result
      [(''stdout'', PStr (replicate 5001 CHR ''x'')),
       (''stdout_lines'', PList (replicate 51 (PStr ''line''))),
       (''rc'', PInt 0)]) ''stdout_lines''
     = Some (PList (replicate 50 (PStr ''line'') @ [PStr ''... (truncated)'']))
   \<and> map_of (clean_result
      [(''stdout'', PStr (replicate 5001 CHR ''x'')),
       (''stdout_lines'', PList (replicate 51 (PStr ''line''))),
       (''rc'', PInt 0)]) ''rc''
     = Some (PInt 0)"
  using
    clean_result_limits_present_keys [of "''stdout''"
      "[(''stdout'', PStr (replicate 5001 CHR ''x'')),
        (''stdout_lines'', PList (replicate 51 (PStr ''line''))),
        (''rc'', PInt 0)]" "PStr (replicate 5001 CHR ''x'')"]
    clean_result_limits_present_keys [of "''stdout_lines''"
      "[(''stdout'', PStr (replicate 5001 CHR ''x'')),
        (''stdout_lines'', PList (replicate 51 (PStr ''line''))),
        (''rc'', PInt 0)]" "PList (replicate 51 (PStr ''line''))"]
    clean_result_limits_present_keys [of "''rc''"
      "[(''stdout'', PStr (replicate 5001 CHR ''x'')),
        (''stdout_lines'', PList (replicate 51 (PStr ''line''))),
        (''rc'', PInt 0)]" "PInt 0"]
  by (simp add: safe_keys_def)

text \<open>
  Claim C2. The keys of the sanitized result are the allow-listed keys that the raw result
  holds, in the order of the allow-list: a key outside the allow-list never appears, and an
  allow-listed key that the raw result lacks is left out.
\<close>

theorem clean_result_keys_allow_listed:
  "dict_keys (clean_result result) = filter (dict_contains result) safe_keys
   \<and> (\<forall>k. dict_contains (clean_result result) k
            = (k \<in> {''stdout'', ''stderr'', ''msg'', ''changed'', ''rc'', ''stdout_lines''}
               \<and> dict_contains result k))"
proof -
  have "dict_keys (clean_result result) = filter (dict_contains result) safe_keys"
    by (simp add: dict_keys_def clean_result_kept keys_kept)
  moreover have "dict_contains (clean_result result) k
            = (k \<in> {''stdout'', ''stderr'', ''msg'', ''changed'', ''rc'', ''stdout_lines''}
               \<and> dict_contains result k)" for k
    unfolding dict_contains_def map_of_clean_result
    by (simp add: safe_keys_def)
  ultimately show ?thesis by blast
qed

text \<open>
  Claim C10. Sanitizing is idempotent: a sanitized result, truncated fields with their
  marker included, is unchanged by a second pass.
\<close>

theorem clean_result_idempotent: "clean_result (clean_result result) = clean_result result"
  by (simp add: clean_result_kept kept_idem)

text \<open>
  Claim C5. Whatever the size of the raw values, the size of the sanitized result is
  bounded by a constant. The code, whose comment gives this as the purpose of the limits
  (no document too large), does not reach it: it limits a string and the number of
  elements of a list, not the elements. For a command that prints one line of 100000
  characters, \<^verbatim>\<open>stdout\<close> is cut to 5000 characters and the marker, and the same line under
  \<^verbatim>\<open>stdout_lines\<close> is kept whole.
\<close>

theorem clean_result_keeps_long_line:
  "clean_result
     [(''stdout'', PStr (replicate 100000 CHR ''x'')),
      (''stdout_lines'', PList [PStr (replicate 100000 CHR ''x'')])]
   = [(''stdout'', PStr (replicate 5000 CHR ''x'' @ ''... (truncated)'')),
      (''stdout_lines'', PList [PStr (replicate 100000 CHR ''x'')])]
   \<and> pysize (PDict (clean_result
       [(''stdout'', PStr (replicate 100000 CHR ''x'')),
        (''stdout_lines'', PList [PStr (replicate 100000 CHR ''x'')])])) = 105033"
  by (simp add: clean_result_def safe_keys_def clean_step_def dict_contains_def
        truncated_marker_def)

text \<open>So no constant bounds the size of the sanitized result.\<close>

theorem clean_result_size_unbounded:
  "\<not> (\<exists>bound. \<forall>result. pysize (PDict (clean_result result)) \<le> bound)"
proof
  assume "\<exists>bound. \<forall>result. pysize (PDict (clean_result result)) \<le> bound"
  then obtain bound where b: "\<forall>result. pysize (PDict (clean_result result)) \<le> bound" ..
  have "pysize (PDict (clean_result
          [(''stdout_lines'', PList [PStr (replicate (Suc bound) CHR ''x'')])])) \<le> bound"
    using b by blast
  then show False
    by (simp add: clean_result_long_line)
qed

text \<open>
  What the limits do bound: the sanitized result has at most six entries, a string stored
  in it has at most 5015 characters (5000 and the marker) and a list stored in it has at
  most 51 elements.
\<close>

theorem clean_result_field_bounds:
  "length (clean_result result) \<le> 6
   \<and> (\<forall>k s. map_of (clean_result result) k = Some (PStr s) \<longrightarrow> length s \<le> 5015)
   \<and> (\<forall>k xs. map_of (clean_result result) k = Some (PList xs) \<longrightarrow> length xs \<le> 51)"
proof -
  have "length (clean_result result) \<le> 6"
    using length_kept [of result safe_keys] by (simp add: clean_result_kept safe_keys_def)
  moreover have "length s \<le> 5015" if "map_of (clean_result result) k = Some (PStr s)" for k s
    using that limit_value_str_bound
    by (auto simp: map_of_clean_result split: if_splits)
  moreover have "length xs \<le> 51" if "map_of (clean_result result) k = Some (PList xs)" for k xs
    using that limit_value_list_bound
    by (auto simp: map_of_clean_result split: if_splits)
  ultimately show ?thesis by blast
qed

theorem clean_result_field_bounds_witness:
  "map_of (clean_result [(''msg'', PStr (replicate 9000 CHR ''x''))]) ''msg''
     = Some (PStr (replicate 5000 CHR ''x'' @ ''... (truncated)''))
   \<and> length (replicate 5000 CHR ''x'' @ ''... (truncated)'') \<le> 5015
   \<and> length (clean_result [(''msg'', PStr (replicate 9000 CHR ''x''))]) \<le> 6"
proof -
  have m: "map_of (clean_result [(''msg'', PStr (replicate 9000 CHR ''x''))]) ''msg''
     = Some (PStr (replicate 5000 CHR ''x'' @ ''... (truncated)''))"
    by (simp add: map_of_clean_result safe_keys_def truncated_marker_def)
  from clean_result_field_bounds [of "[(''msg'', PStr (replicate 9000 CHR ''x''))]"] m
  show ?thesis by blast
qed

section \<open>Properties of the sink client\<close>

lemma send_disabled: "disabled cb \<Longrightarrow> send_to_elasticsearch cb log_entry outcome = Inr cb"
  by (simp add: send_to_elasticsearch_def)

lemma send_response:
  assumes "\<not> disabled cb" and "es_host cb = Some host" and "es_index cb = Some index"
  shows "send_to_elasticsearch cb log_entry (Response status) =
           Inr (if status = 200 \<or> status = 201
                then cb\<lparr>posted := posted cb @
                          [\<lparr>url = host @ ''/'' @ index @ ''/_doc'', body_of = log_entry\<rparr>]\<rparr>
                else cb\<lparr>posted := posted cb @
                          [\<lparr>url = host @ ''/'' @ index @ ''/_doc'', body_of = log_entry\<rparr>],
                        displayed := displayed cb @
                          [Warning (''[Elasticsearch] Failed to send log: HTTP '' @ str_int status)]\<rparr>)"
  using assms
  by (simp add: send_to_elasticsearch_def bind_err_def getattr_def display_add_def Let_def)

lemma send_request_exception:
  assumes "\<not> disabled cb" and "es_host cb = Some host" and "es_index cb = Some index"
  shows "send_to_elasticsearch cb log_entry (RequestException e) =
           Inr (cb\<lparr>posted := posted cb @
                      [\<lparr>url = host @ ''/'' @ index @ ''/_doc'', body_of = log_entry\<rparr>],
                   displayed := displayed cb @ [Warning (''[Elasticsearch] Error: '' @ e)]\<rparr>)"
  using assms
  by (simp add: send_to_elasticsearch_def bind_err_def getattr_def display_add_def Let_def)

lemma send_other_exception:
  assumes "\<not> disabled cb" and "es_host cb = Some host" and "es_index cb = Some index"
  shows "send_to_elasticsearch cb log_entry (OtherException e) = Inl (Uncaught e)"
  using assms
  by (simp add: send_to_elasticsearch_def bind_err_def getattr_def Let_def)



text \<open>
  Claim C4. On an enabled object, a call is silent exactly when the response has status 200
  or 201. Every other status is reported by a warning that carries the status code, and a
  transport fault by a warning that carries the text of the exception.
\<close>

theorem send_reports_success_iff_200_or_201:
  assumes "\<not> disabled cb" and "es_host cb = Some host" and "es_index cb = Some index"
  shows "(\<forall>status. \<exists>cb'. send_to_elasticsearch cb log_entry (Response status) = Inr cb'
            \<and> displayed cb' = displayed cb @
                 (if status = 200 \<or> status = 201 then []
                  else [Warning (''[Elasticsearch] Failed to send log: HTTP '' @ str_int status)]))
       \<and> (\<forall>e. \<exists>cb'. send_to_elasticsearch cb log_entry (RequestException e) = Inr cb'
            \<and> displayed cb' = displayed cb @ [Warning (''[Elasticsearch] Error: '' @ e)])
       \<and> (\<forall>outcome cb'. send_to_elasticsearch cb log_entry outcome = Inr cb' \<longrightarrow>
            (displayed cb' = displayed cb) = (outcome = Response 200 \<or> outcome = Response 201))"
proof -
  have r: "\<exists>cb'. send_to_elasticsearch cb log_entry (Response status) = Inr cb'
            \<and> displayed cb' = displayed cb @
                 (if status = 200 \<or> status = 201 then []
                  else [Warning (''[Elasticsearch] Failed to send log: HTTP '' @ str_int status)])"
    for status
    by (simp add: send_response [OF assms])
  have x: "\<exists>cb'. send_to_elasticsearch cb log_entry (RequestException e) = Inr cb'
            \<and> displayed cb' = displayed cb @ [Warning (''[Elasticsearch] Error: '' @ e)]" for e
    by (simp add: send_request_exception [OF assms])
  have iff: "(displayed cb' = displayed cb) = (outcome = Response 200 \<or> outcome = Response 201)"
    if "send_to_elasticsearch cb log_entry outcome = Inr cb'" for outcome cb'
  proof (cases outcome)
    case (Response status)
    with that show ?thesis
      by (auto simp: send_response [OF assms] split: if_splits)
  next
    case (RequestException e)
    with that show ?thesis
      by (auto simp: send_request_exception [OF assms])
  next
    case (OtherException e)
    with that show ?thesis
      by (simp add: send_other_exception [OF assms])
  qed
  from r x iff show ?thesis by blast
qed

theorem send_reports_success_iff_200_or_201_witness:
  "(\<exists>cb'. send_to_elasticsearch
        (set_options ''http://localhost:9200'' ''ansible-logs'' True
           (callback_init True ''controller''))
        [(''event_type'', PStr ''task_start'')] (Response 500) = Inr cb'
      \<and> displayed cb' = [Warning ''[Elasticsearch] Failed to send log: HTTP 500''])
   \<and> (\<exists>cb'. send_to_elasticsearch
        (set_options ''http://localhost:9200'' ''ansible-logs'' True
           (callback_init True ''controller''))
        [(''event_type'', PStr ''task_start'')] (Response 201) = Inr cb'
      \<and> displayed cb' = [])
   \<and> (\<exists>cb'. send_to_elasticsearch
        (set_options ''http://localhost:9200'' ''ansible-logs'' True
           (callback_init True ''controller''))
        [(''event_type'', PStr ''task_start'')] (RequestException ''timed out'') = Inr cb'
      \<and> displayed cb' = [Warning ''[Elasticsearch] Error: timed out''])"
proof -
  let ?cb = "set_options ''http://localhost:9200'' ''ansible-logs'' True
               (callback_init True ''controller'')"
  let ?doc = "[(''event_type'', PStr ''task_start'')]"
  have h: "\<not> disabled ?cb" "es_host ?cb = Some ''http://localhost:9200''"
      "es_index ?cb = Some ''ansible-logs''"
    by (simp_all add: set_options_def callback_init_def)
  have d: "displayed ?cb = []"
    by (simp add: set_options_def callback_init_def)
  have s: "str_int 500 = ''500''"
    by code_simp
  note all = send_reports_success_iff_200_or_201 [OF h, of ?doc]
  from all have "\<exists>cb'. send_to_elasticsearch ?cb ?doc (Response 500) = Inr cb'
      \<and> displayed cb' = displayed ?cb @
           (if (500::int) = 200 \<or> (500::int) = 201 then []
            else [Warning (''[Elasticsearch] Failed to send log: HTTP '' @ str_int 500)])"
    by blast
  then have a: "\<exists>cb'. send_to_elasticsearch ?cb ?doc (Response 500) = Inr cb'
      \<and> displayed cb' = [Warning ''[Elasticsearch] Failed to send log: HTTP 500'']"
    by (simp add: d s)
  from all have "\<exists>cb'. send_to_elasticsearch ?cb ?doc (Response 201) = Inr cb'
      \<and> displayed cb' = displayed ?cb @
           (if (201::int) = 200 \<or> (201::int) = 201 then []
            else [Warning (''[Elasticsearch] Failed to send log: HTTP '' @ str_int 201)])"
    by blast
  then have b: "\<exists>cb'. send_to_elasticsearch ?cb ?doc (Response 201) = Inr cb'
      \<and> displayed cb' = []"
    by (simp add: d)
  from all have "\<exists>cb'. send_to_elasticsearch ?cb ?doc (RequestException ''timed out'') = Inr cb'
      \<and> displayed cb' = displayed ?cb @ [Warning (''[Elasticsearch] Error: '' @ ''timed out'')]"
    by blast
  then have c: "\<exists>cb'. send_to_elasticsearch ?cb ?doc (RequestException ''timed out'') = Inr cb'
      \<and> displayed cb' = [Warning ''[Elasticsearch] Error: timed out'']"
    by (simp add: d)
  from a b c show ?thesis by blast
qed

text \<open>
  Claim C9. An object constructed without the \<^verbatim>\<open>requests\<close> library is disabled, and on a
  disabled object \<^verbatim>\<open>_send_to_elasticsearch\<close> returns at once: the object is unchanged, so
  no call of \<^verbatim>\<open>requests.post\<close> is made and nothing is displayed, whatever the backend
  would have answered.
\<close>

theorem send_disabled_is_noop:
  "disabled (set_options host index log_results (callback_init False gethostname))
   \<and> (disabled cb \<longrightarrow> send_to_elasticsearch cb log_entry outcome = Inr cb)"
  by (simp add: send_disabled set_options_def callback_init_def)

theorem send_disabled_is_noop_witness:
  "send_to_elasticsearch
     (set_options ''http://localhost:9200'' ''ansible-logs'' True (callback_init False ''controller''))
     [(''event_type'', PStr ''task_start'')] (Response 500)
   = Inr (set_options ''http://localhost:9200'' ''ansible-logs'' True (callback_init False ''controller''))
   \<and> posted (set_options ''http://localhost:9200'' ''ansible-logs'' True
               (callback_init False ''controller'')) = []"
  using send_disabled_is_noop
    [of "''http://localhost:9200''" "''ansible-logs''" True "''controller''"
        "set_options ''http://localhost:9200'' ''ansible-logs'' True (callback_init False ''controller'')"
        "[(''event_type'', PStr ''task_start'')]" "Response 500"]
  by (simp add: set_options_def callback_init_def)

section \<open>Properties of the document builders\<close>

lemma run_attrs_set:
  "playbook_id cb = Some pid \<Longrightarrow> playbook_name cb = Some pname \<Longrightarrow> hostname cb = Some hn \<Longrightarrow>
   run_attrs cb = Inr (pid, pname, hn)"
  by (simp add: run_attrs_def bind_err_def getattr_def)

lemma dict_get_absent: "\<not> dict_contains d k \<Longrightarrow> dict_get d k dflt = dflt"
  by (simp add: dict_contains_def dict_get_def)

lemma dict_contains_keys: "dict_contains d k = (k \<in> set (dict_keys d))"
  by (simp add: dict_contains_def dict_keys_def map_of_eq_None_iff)

lemma fold_dict_set_fresh:
  "distinct hs \<Longrightarrow> set hs \<inter> set (map fst acc) = {} \<Longrightarrow>
   fold (\<lambda>h d. dict_set d h (f h)) hs acc = acc @ map (\<lambda>h. (h, f h)) hs"
proof (induction hs arbitrary: acc)
  case Nil
  then show ?case by simp
next
  case (Cons h hs)
  have fresh: "h \<notin> set (map fst acc)" using Cons.prems by auto
  have "set hs \<inter> set (map fst (acc @ [(h, f h)])) = {}"
    using Cons.prems by auto
  with Cons fresh show ?case
    by (simp add: dict_set_fresh)
qed

lemma summary_of_distinct:
  assumes "distinct (dict_keys (processed stats))"
  shows "summary_of stats =
           map (\<lambda>h. (h, summary_item (summarize stats h))) (sorted_hosts stats)"
proof -
  have "distinct (sorted_hosts stats)"
    using assms by (simp add: sorted_hosts_def)
  then show ?thesis
    using fold_dict_set_fresh [of "sorted_hosts stats" "[]"
            "\<lambda>h. summary_item (summarize stats h)"]
    by (simp add: summary_of_def)
qed

lemma keys_summary_of:
  assumes "distinct (dict_keys (processed stats))"
  shows "dict_keys (summary_of stats) = sort (dict_keys (processed stats))"
  by (simp add: summary_of_distinct [OF assms] dict_keys_def sorted_hosts_def comp_def)

lemma map_of_graph:
  "map_of (map (\<lambda>h. (h, f h)) hs) h = (if h \<in> set hs then Some (f h) else None)"
  by (induction hs) auto

lemma map_of_summary_of:
  assumes "distinct (dict_keys (processed stats))" and "h \<in> set (dict_keys (processed stats))"
  shows "map_of (summary_of stats) h = Some (summary_item (summarize stats h))"
  using assms(2)
  by (simp add: summary_of_distinct [OF assms(1)] map_of_graph sorted_hosts_def)

lemma strict_sorted_sort: "distinct xs \<Longrightarrow> sorted_wrt (<) (sort xs)"
  by (simp add: strict_sorted_iff)

text \<open>
  Claim C6. For statistics over any set of processed hosts, given in any order, the
  \<^verbatim>\<open>playbook_stats\<close> document is built, and the keys of its \<^verbatim>\<open>summary\<close> are the processed
  hosts in strictly ascending order of their names, each host with its counts \<^verbatim>\<open>ok\<close>,
  \<^verbatim>\<open>changed\<close>, \<^verbatim>\<open>unreachable\<close>, \<^verbatim>\<open>failures\<close>, \<^verbatim>\<open>skipped\<close>, \<^verbatim>\<open>rescued\<close> and \<^verbatim>\<open>ignored\<close>. The
  keys of the dictionary \<^verbatim>\<open>processed\<close> are distinct, as the keys of a dictionary are, and
  the run has started.
\<close>

theorem playbook_stats_summary_sorted:
  assumes "distinct (dict_keys (processed stats))"
    and "start_time cb = Some (Some started)"
    and "playbook_id cb = Some pid" and "playbook_name cb = Some pname"
    and "hostname cb = Some hn"
  shows "\<exists>runtime log_entry summary.
           playbook_stats_entry cb now stats = Inr (runtime, log_entry)
         \<and> map_of log_entry ''event_type'' = Some (PStr ''playbook_stats'')
         \<and> map_of log_entry ''summary'' = Some (PDict summary)
         \<and> sorted_wrt (<) (dict_keys summary)
         \<and> set (dict_keys summary) = set (dict_keys (processed stats))
         \<and> (\<forall>h. dict_contains (processed stats) h \<longrightarrow>
               map_of summary h =
                 Some (PDict [(''ok'', PInt (ok (summarize stats h))),
                              (''changed'', PInt (changed (summarize stats h))),
                              (''unreachable'', PInt (unreachable (summarize stats h))),
                              (''failures'', PInt (failures (summarize stats h))),
                              (''skipped'', PInt (skipped (summarize stats h))),
                              (''rescued'', PInt (rescued (summarize stats h))),
                              (''ignored'', PInt (ignored (summarize stats h)))]))"
proof -
  let ?entry =
    "[(''@timestamp'', timestamp now),
      (''event_type'', PStr ''playbook_stats''),
      (''playbook_id'', pid),
      (''playbook'', pname),
      (''status'', PStr ''completed''),
      (''start_time'', timestamp started),
      (''end_time'', timestamp now),
      (''duration_seconds'', PFloat (total_seconds (datetime_sub now started))),
      (''hostname'', PStr hn),
      (''summary'', PDict (summary_of stats))]"
  have built: "playbook_stats_entry cb now stats = Inr (datetime_sub now started, ?entry)"
    using assms(2-5)
    by (simp add: playbook_stats_entry_def bind_err_def getattr_def run_attrs_def Let_def)
  have kind: "map_of ?entry ''event_type'' = Some (PStr ''playbook_stats'')"
    by simp
  have summ: "map_of ?entry ''summary'' = Some (PDict (summary_of stats))"
    by simp
  have ascending: "sorted_wrt (<) (dict_keys (summary_of stats))"
    by (simp add: keys_summary_of [OF assms(1)] strict_sorted_sort [OF assms(1)])
  have same: "set (dict_keys (summary_of stats)) = set (dict_keys (processed stats))"
    by (simp add: keys_summary_of [OF assms(1)])
  have counts: "map_of (summary_of stats) h =
                 Some (PDict [(''ok'', PInt (ok (summarize stats h))),
                              (''changed'', PInt (changed (summarize stats h))),
                              (''unreachable'', PInt (unreachable (summarize stats h))),
                              (''failures'', PInt (failures (summarize stats h))),
                              (''skipped'', PInt (skipped (summarize stats h))),
                              (''rescued'', PInt (rescued (summarize stats h))),
                              (''ignored'', PInt (ignored (summarize stats h)))])"
    if "dict_contains (processed stats) h" for h
    using that map_of_summary_of [OF assms(1), of h]
    by (simp add: dict_contains_keys summary_item_def)
  from built kind summ ascending same counts show ?thesis
    by blast
qed

theorem playbook_stats_summary_sorted_witness:
  "dict_keys (summary_of
      \<lparr>processed = [(''h1'', PInt 1), (''h0'', PInt 1)],
       summarize = (\<lambda>h. \<lparr>ok = 5, changed = 1, unreachable = 0, failures = 0, skipped = 0,
                          rescued = 0, ignored = 0\<rparr>)\<rparr>) = [''h0'', ''h1'']
   \<and> (\<exists>runtime log_entry summary.
        playbook_stats_entry
          ((callback_init True ''controller'')
             \<lparr>playbook_name := Some (PStr ''deploy.yml''),
              playbook_id := Some (PStr ''controller-20240501120007''),
              start_time := Some (Some \<lparr>year = 2024, month = 5, day = 1, hour = 12,
                                       minute = 0, second = 7, microsecond = 0\<rparr>)\<rparr>)
          \<lparr>year = 2024, month = 5, day = 1, hour = 12, minute = 3, second = 0,
           microsecond = 250000\<rparr>
          \<lparr>processed = [(''h1'', PInt 1), (''h0'', PInt 1)],
           summarize = (\<lambda>h. \<lparr>ok = 5, changed = 1, unreachable = 0, failures = 0, skipped = 0,
                              rescued = 0, ignored = 0\<rparr>)\<rparr>
          = Inr (runtime, log_entry)
      \<and> map_of log_entry ''summary'' = Some (PDict summary)
      \<and> sorted_wrt (<) (dict_keys summary)
      \<and> map_of summary ''h0'' =
            Some (PDict [(''ok'', PInt 5), (''changed'', PInt 1), (''unreachable'', PInt 0),
                         (''failures'', PInt 0), (''skipped'', PInt 0), (''rescued'', PInt 0),
                         (''ignored'', PInt 0)]))"
proof -
  let ?stats = "\<lparr>processed = [(''h1'', PInt 1), (''h0'', PInt 1)],
       summarize = (\<lambda>h. \<lparr>ok = 5, changed = 1, unreachable = 0, failures = 0, skipped = 0,
                          rescued = 0, ignored = 0\<rparr>)\<rparr>"
  let ?cb = "(callback_init True ''controller'')
             \<lparr>playbook_name := Some (PStr ''deploy.yml''),
              playbook_id := Some (PStr ''controller-20240501120007''),
              start_time := Some (Some \<lparr>year = 2024, month = 5, day = 1, hour = 12,
                                       minute = 0, second = 7, microsecond = 0\<rparr>)\<rparr>"
  have keys: "dict_keys (summary_of ?stats) = [''h0'', ''h1'']"
    by code_simp
  have d: "distinct (dict_keys (processed ?stats))"
    by (simp add: dict_keys_def)
  have a: "start_time ?cb = Some (Some \<lparr>year = 2024, month = 5, day = 1, hour = 12,
                                       minute = 0, second = 7, microsecond = 0\<rparr>)"
      "playbook_id ?cb = Some (PStr ''controller-20240501120007'')"
      "playbook_name ?cb = Some (PStr ''deploy.yml'')"
      "hostname ?cb = Some ''controller''"
    by (simp_all add: callback_init_def)
  have c: "dict_contains (processed ?stats) ''h0''"
    by (simp add: dict_contains_def)
  from playbook_stats_summary_sorted [OF d a] c keys show ?thesis
    by fastforce
qed

text \<open>
  Claim C7. A task result that lacks an optional field gets the default instead of an
  error: without \<^verbatim>\<open>changed\<close> the \<^verbatim>\<open>task_ok\<close> document has \<^verbatim>\<open>changed\<close> false, without
  \<^verbatim>\<open>msg\<close> the \<^verbatim>\<open>task_failed\<close> document has the error message \<^verbatim>\<open>Unknown error\<close> and the
  \<^verbatim>\<open>host_unreachable\<close> document has \<^verbatim>\<open>Host unreachable\<close>.
\<close>

theorem missing_fields_get_defaults:
  assumes "playbook_id cb = Some pid" and "playbook_name cb = Some pname"
    and "hostname cb = Some hn" and "log_task_results cb = Some log_results"
  shows "(\<not> dict_contains raw ''changed'' \<longrightarrow>
            (\<exists>log_entry. runner_on_ok_entry cb now host task raw = Inr log_entry
               \<and> map_of log_entry ''changed'' = Some (PBool False)))
       \<and> (\<not> dict_contains raw ''msg'' \<longrightarrow>
            (\<exists>log_entry. runner_on_failed_entry cb now host task raw ignore_errors = Inr log_entry
               \<and> map_of log_entry ''error_message'' = Some (PStr ''Unknown error'')))
       \<and> (\<not> dict_contains raw ''msg'' \<longrightarrow>
            (\<exists>log_entry. runner_on_unreachable_entry cb now host task raw = Inr log_entry
               \<and> map_of log_entry ''error_message'' = Some (PStr ''Host unreachable'')))"
proof -
  note attrs = run_attrs_set [OF assms(1-3)]
  have okay: "\<exists>log_entry. runner_on_ok_entry cb now host task raw = Inr log_entry
               \<and> map_of log_entry ''changed'' = Some (PBool False)"
    if "\<not> dict_contains raw ''changed''"
    using that assms(4)
    by (cases log_results)
       (simp_all add: runner_on_ok_entry_def attrs bind_err_def with_result_def getattr_def
          dict_get_absent)
  have failed: "\<exists>log_entry. runner_on_failed_entry cb now host task raw ignore_errors = Inr log_entry
               \<and> map_of log_entry ''error_message'' = Some (PStr ''Unknown error'')"
    if "\<not> dict_contains raw ''msg''"
    using that assms(4)
    by (cases log_results)
       (simp_all add: runner_on_failed_entry_def attrs bind_err_def with_result_def getattr_def
          dict_get_absent)
  have unreachable: "\<exists>log_entry. runner_on_unreachable_entry cb now host task raw = Inr log_entry
               \<and> map_of log_entry ''error_message'' = Some (PStr ''Host unreachable'')"
    if "\<not> dict_contains raw ''msg''"
    using that
    by (simp add: runner_on_unreachable_entry_def attrs bind_err_def dict_get_absent)
  from okay failed unreachable show ?thesis
    by blast
qed

theorem missing_fields_get_defaults_witness:
  "(\<exists>log_entry. runner_on_ok_entry
        (set_options ''http://localhost:9200'' ''ansible-logs'' True
           (callback_init True ''controller''))
        \<lparr>year = 2024, month = 5, day = 1, hour = 12, minute = 0, second = 7, microsecond = 0\<rparr>
        ''h1'' ''install pkg'' [] = Inr log_entry
      \<and> map_of log_entry ''changed'' = Some (PBool False))
   \<and> (\<exists>log_entry. runner_on_failed_entry
        (set_options ''http://localhost:9200'' ''ansible-logs'' True
           (callback_init True ''controller''))
        \<lparr>year = 2024, month = 5, day = 1, hour = 12, minute = 0, second = 7, microsecond = 0\<rparr>
        ''h1'' ''install pkg'' [] False = Inr log_entry
      \<and> map_of log_entry ''error_message'' = Some (PStr ''Unknown error''))
   \<and> (\<exists>log_entry. runner_on_unreachable_entry
        (set_options ''http://localhost:9200'' ''ansible-logs'' True
           (callback_init True ''controller''))
        \<lparr>year = 2024, month = 5, day = 1, hour = 12, minute = 0, second = 7, microsecond = 0\<rparr>
        ''h1'' ''install pkg'' [] = Inr log_entry
      \<and> map_of log_entry ''error_message'' = Some (PStr ''Host unreachable''))"
proof -
  let ?cb = "set_options ''http://localhost:9200'' ''ansible-logs'' True
               (callback_init True ''controller'')"
  have a: "playbook_id ?cb = Some PNone" "playbook_name ?cb = Some PNone"
      "hostname ?cb = Some ''controller''" "log_task_results ?cb = Some True"
    by (simp_all add: set_options_def callback_init_def)
  have absent: "\<not> dict_contains [] ''changed''" "\<not> dict_contains [] ''msg''"
    by (simp_all add: dict_contains_def)
  from missing_fields_get_defaults [OF a, of "[]"] absent show ?thesis
    by blast
qed




end
